theory Spec2Isabelle
  imports Main "HOL-Library.AList"
begin

section \<open>Spreadsheet rows\<close>

text \<open>
  Both programs of the repository (the command line tool \<^verbatim>\<open>Work_DB.py\<close> and the web
  application \<^verbatim>\<open>App_files/App.py\<close>) read the same three spreadsheets through pandas.
  A numeric cell is blank (\<open>NaN\<close>), a number, or something \<^verbatim>\<open>int()\<close> rejects; a text
  cell is blank (\<open>None\<close>) or a string. Cyrillic literals of the source are written in
  Latin transliteration, one literal for one literal.
\<close>

datatype num_cell = NaN | Num int | NonNumeric

datatype py_error =
  ValueError | TypeError | IntegrityError | OperationalError | FileNotFoundError

datatype 'a xlsx = Missing | Unreadable | Sheet "'a list"

fun notna :: "num_cell \<Rightarrow> bool" where
  "notna NaN = False"
| "notna _ = True"

fun py_int :: "num_cell \<Rightarrow> py_error + int" where
  "py_int (Num n) = Inr n"
| "py_int _ = Inl ValueError"

definition py_str :: "string option \<Rightarrow> string" where
  "py_str c = (case c of None \<Rightarrow> ''nan'' | Some s \<Rightarrow> s)"

record users_row =
  userID :: num_cell
  fio :: "string option"
  phone :: "string option"
  login :: "string option"
  password :: "string option"
  type :: "string option"

record comments_row =
  commentID :: num_cell
  message :: "string option"
  c_masterID :: num_cell
  c_requestID :: num_cell

text \<open>
  The requests sheet. \<^verbatim>\<open>Work_DB.py\<close> passes a date cell on as it is, and is modelled on
  text cells (\<open>string option\<close>); \<^verbatim>\<open>App.py\<close> tells a \<^verbatim>\<open>pd.Timestamp\<close> from other
  values, and is modelled on \<open>date_cell\<close>.
\<close>

datatype date_cell = NaT | Timestamp nat nat nat nat nat nat | DateText string

record 'd requests_row =
  requestID :: num_cell
  startDate :: 'd
  homeTechType :: "string option"
  homeTechModel :: "string option"
  problemDescryption :: "string option"
  requestStatus :: "string option"
  completionDate :: 'd
  repairParts :: "string option"
  masterID :: num_cell
  clientID :: num_cell

section \<open>The store of \<^verbatim>\<open>Work_DB.py\<close>\<close>

text \<open>
  One record per table of \<^verbatim>\<open>initialize_database\<close>. Columns that the store fills from its
  clock (\<^verbatim>\<open>created_at\<close>, \<^verbatim>\<open>updated_at\<close>, \<^verbatim>\<open>last_login\<close>) and the generated
  \<^verbatim>\<open>request_number\<close> are left out. Every \<^verbatim>\<open>AUTOINCREMENT\<close> table carries the
  high-water mark that SQLite keeps in \<^verbatim>\<open>sqlite_sequence\<close>.
\<close>

record w_user =
  user_id :: int
  full_name :: string
  u_phone :: string
  u_login :: string
  password_hash :: string
  user_type_id :: int
  is_active :: bool

record w_request =
  request_id :: int
  start_date :: string
  equipment_type_id :: int
  equipment_model_id :: int
  problem_description :: string
  status_id :: int
  completion_date :: "string option"
  repair_parts :: "string option"
  master_id :: "int option"
  client_id :: int
  priority :: int

record w_comment =
  comment_id :: int
  c_message :: string
  c_master_id :: int
  c_request_id :: int

record wdb =
  user_types :: "(int \<times> string) list"
  users :: "w_user list"
  users_seq :: int
  equipment_types :: "(int \<times> string) list"
  equipment_types_seq :: int
  equipment_models :: "(int \<times> string \<times> int) list"
  equipment_models_seq :: int
  request_statuses :: "(int \<times> string) list"
  repair_requests :: "w_request list"
  repair_requests_seq :: int
  comments :: "w_comment list"
  comments_seq :: int

text \<open>The next \<^verbatim>\<open>AUTOINCREMENT\<close> key: one more than the largest key the table ever held.\<close>

definition autoinc :: "int \<Rightarrow> int list \<Rightarrow> int" where
  "autoinc seq ids = max seq (fold max ids 0) + 1"

text \<open>
  SQLite compares two \<^verbatim>\<open>TEXT\<close> values byte by byte (\<^verbatim>\<open>memcmp\<close>, the shorter one first
  when it is a prefix). \<open>text_le a b\<close> is \<^verbatim>\<open>a <= b\<close>.
\<close>

fun text_le :: "string \<Rightarrow> string \<Rightarrow> bool" where
  "text_le [] _ = True"
| "text_le (_ # _) [] = False"
| "text_le (a # as) (b # bs) =
     (if a = b then text_le as bs else (of_char a :: nat) < of_char b)"

text \<open>\<^verbatim>\<open>CHECK (completion_date IS NULL OR completion_date >= start_date)\<close>\<close>

definition check_dates :: "string \<Rightarrow> string option \<Rightarrow> bool" where
  "check_dates sd cd = (case cd of None \<Rightarrow> True | Some c \<Rightarrow> text_le sd c)"

record w_result =
  success :: bool
  w_message :: string

subsection \<open>\<^verbatim>\<open>import_from_excel\<close>\<close>

abbreviation type_mapping :: "(string \<times> int) list" where
  "type_mapping \<equiv>
     [(''Menedzher'', 1), (''Master'', 2), (''Operator'', 3), (''Zakazchik'', 4)]"

abbreviation status_mapping :: "(string \<times> int) list" where
  "status_mapping \<equiv>
     [(''Novaya zayavka'', 1), (''V protsesse remonta'', 2), (''Gotova k vydache'', 3),
      (''Vypolnena'', 4), (''Otmenena'', 5)]"

text \<open>\<^verbatim>\<open>dict.get(key, default)\<close> on an association list.\<close>

definition dict_get :: "('k \<times> 'v) list \<Rightarrow> 'k \<Rightarrow> 'v \<Rightarrow> 'v" where
  "dict_get d k dflt = (case map_of d k of None \<Rightarrow> dflt | Some v \<Rightarrow> v)"

text \<open>
  One pass of the users loop (lines 425 to 468). \<open>sha\<close> stands for
  \<^verbatim>\<open>hashlib.sha256(...).hexdigest()\<close>. The row is looked up by login; a hit is updated
  in place, a miss is inserted with a fresh key; either way the sheet's \<^verbatim>\<open>userID\<close> is
  mapped to the key. The foreign key of \<^verbatim>\<open>user_type_id\<close> is enforced
  (\<^verbatim>\<open>PRAGMA foreign_keys = ON\<close>).
\<close>

definition import_user ::
  "(string \<Rightarrow> string) \<Rightarrow> users_row \<Rightarrow> wdb \<times> (int \<times> int) list
     \<Rightarrow> py_error + wdb \<times> (int \<times> int) list" where
  "import_user sha row st =
     (let db = fst st; user_id_mapping = snd st;
          utype = (case type row of None \<Rightarrow> 4 | Some t \<Rightarrow> dict_get type_mapping t 4);
          pw = sha (py_str (password row))
      in case find (\<lambda>u. u_login u = py_str (login row)) (users db) of
           Some existing_user \<Rightarrow>
             if utype \<notin> fst ` set (user_types db) then Inl IntegrityError
             else
               (let db' = db\<lparr>users :=
                      map (\<lambda>u. if user_id u = user_id existing_user
                                then u\<lparr>full_name := py_str (fio row),
                                       u_phone := py_str (phone row),
                                       password_hash := pw,
                                       user_type_id := utype,
                                       is_active := True\<rparr>
                                else u) (users db)\<rparr>
                in case py_int (userID row) of
                     Inl e \<Rightarrow> Inl e
                   | Inr k \<Rightarrow> Inr (db', AList.update k (user_id existing_user) user_id_mapping))
         | None \<Rightarrow>
             if utype \<notin> fst ` set (user_types db) then Inl IntegrityError
             else
               (let uid = autoinc (users_seq db) (map user_id (users db));
                    db' = db\<lparr>users := users db @
                             [\<lparr>user_id = uid, full_name = py_str (fio row),
                               u_phone = py_str (phone row), u_login = py_str (login row),
                               password_hash = pw, user_type_id = utype, is_active = True\<rparr>],
                           users_seq := uid\<rparr>
                in case py_int (userID row) of
                     Inl e \<Rightarrow> Inl e
                   | Inr k \<Rightarrow> Inr (db', AList.update k uid user_id_mapping)))"

text \<open>A loop whose body may raise: the first exception ends it.\<close>

fun for_rows :: "('r \<Rightarrow> 's \<Rightarrow> py_error + 's) \<Rightarrow> 'r list \<Rightarrow> 's \<Rightarrow> py_error + 's" where
  "for_rows body [] s = Inr s"
| "for_rows body (r # rs) s =
     (case body r s of Inl e \<Rightarrow> Inl e | Inr s' \<Rightarrow> for_rows body rs s')"

text \<open>\<^verbatim>\<open>pd.read_excel\<close> raises on a file it cannot find or read.\<close>

fun read_excel :: "'a xlsx \<Rightarrow> py_error + 'a list" where
  "read_excel Missing = Inl FileNotFoundError"
| "read_excel Unreadable = Inl ValueError"
| "read_excel (Sheet rows) = Inr rows"

text \<open>
  The two memo dictionaries of the requests loop (lines 501 to 547): a type or model is
  looked up in the dictionary, then in the table, and inserted when neither has it.
  The model key is the string \<^verbatim>\<open>f"{equipment_type}_{equipment_model}"\<close>.
\<close>

definition get_or_create_type ::
  "string \<Rightarrow> wdb \<Rightarrow> (string \<times> int) list \<Rightarrow> int \<times> wdb \<times> (string \<times> int) list" where
  "get_or_create_type equipment_type db cache =
     (case map_of cache equipment_type of
        Some type_id \<Rightarrow> (type_id, db, cache)
      | None \<Rightarrow>
          (case find (\<lambda>t. snd t = equipment_type) (equipment_types db) of
             Some t \<Rightarrow> (fst t, db, AList.update equipment_type (fst t) cache)
           | None \<Rightarrow>
               (let type_id = autoinc (equipment_types_seq db) (map fst (equipment_types db))
                in (type_id,
                    db\<lparr>equipment_types := equipment_types db @ [(type_id, equipment_type)],
                       equipment_types_seq := type_id\<rparr>,
                    AList.update equipment_type type_id cache))))"

definition get_or_create_model ::
  "string \<Rightarrow> string \<Rightarrow> int \<Rightarrow> wdb \<Rightarrow> (string \<times> int) list
     \<Rightarrow> int \<times> wdb \<times> (string \<times> int) list" where
  "get_or_create_model equipment_type equipment_model type_id db cache =
     (let model_key = equipment_type @ ''_'' @ equipment_model
      in case map_of cache model_key of
           Some model_id \<Rightarrow> (model_id, db, cache)
         | None \<Rightarrow>
             (case find (\<lambda>m. fst (snd m) = equipment_model \<and> snd (snd m) = type_id)
                     (equipment_models db) of
                Some m \<Rightarrow> (fst m, db, AList.update model_key (fst m) cache)
              | None \<Rightarrow>
                  (let model_id =
                         autoinc (equipment_models_seq db) (map fst (equipment_models db))
                   in (model_id,
                       db\<lparr>equipment_models :=
                            equipment_models db @ [(model_id, equipment_model, type_id)],
                          equipment_models_seq := model_id\<rparr>,
                       AList.update model_key model_id cache))))"

text \<open>
  \<^verbatim>\<open>INSERT INTO repair_requests\<close>: the \<^verbatim>\<open>NOT NULL\<close> columns, the two \<^verbatim>\<open>CHECK\<close>
  constraints and the five foreign keys of the table definition (lines 189 to 212).
  A violation raises \<^verbatim>\<open>sqlite3.IntegrityError\<close> and writes nothing.
\<close>

definition insert_request ::
  "string option \<Rightarrow> int \<Rightarrow> int \<Rightarrow> string \<Rightarrow> int \<Rightarrow> string option \<Rightarrow> string option
     \<Rightarrow> int option \<Rightarrow> int option \<Rightarrow> int \<Rightarrow> wdb \<Rightarrow> py_error + int \<times> wdb" where
  "insert_request sd type_id model_id descr status cd parts master client prio db =
     (case sd of
        None \<Rightarrow> Inl IntegrityError
      | Some sd' \<Rightarrow>
          (case client of
             None \<Rightarrow> Inl IntegrityError
           | Some client' \<Rightarrow>
               if \<not> (1 \<le> prio \<and> prio \<le> 5) \<or> \<not> check_dates sd' cd
                  \<or> type_id \<notin> fst ` set (equipment_types db)
                  \<or> model_id \<notin> fst ` set (equipment_models db)
                  \<or> status \<notin> fst ` set (request_statuses db)
                  \<or> client' \<notin> user_id ` set (users db)
                  \<or> (case master of None \<Rightarrow> False
                      | Some m \<Rightarrow> m \<notin> user_id ` set (users db))
               then Inl IntegrityError
               else
                 (let rid = autoinc (repair_requests_seq db)
                              (map request_id (repair_requests db))
                  in Inr (rid,
                       db\<lparr>repair_requests := repair_requests db @
                            [\<lparr>request_id = rid, start_date = sd', equipment_type_id = type_id,
                              equipment_model_id = model_id, problem_description = descr,
                              status_id = status, completion_date = cd, repair_parts = parts,
                              master_id = master, client_id = client', priority = prio\<rparr>],
                          repair_requests_seq := rid\<rparr>))))"

record requests_state =
  rs_db :: wdb
  rs_types :: "(string \<times> int) list"
  rs_models :: "(string \<times> int) list"
  rs_mapping :: "(int \<times> int) list"

text \<open>One pass of the requests loop (lines 500 to 576).\<close>

definition import_request ::
  "(int \<times> int) list \<Rightarrow> string option requests_row \<Rightarrow> requests_state
     \<Rightarrow> py_error + requests_state" where
  "import_request user_id_mapping row st =
     (let equipment_type = py_str (homeTechType row);
          t = get_or_create_type equipment_type (rs_db st) (rs_types st);
          type_id = fst t;
          equipment_model = py_str (homeTechModel row);
          m = get_or_create_model equipment_type equipment_model type_id
                (fst (snd t)) (rs_models st);
          model_id = fst m;
          status = dict_get status_mapping (py_str (requestStatus row)) 1
      in case py_int (clientID row) of
           Inl e \<Rightarrow> Inl e
         | Inr client_key \<Rightarrow>
             (case (if notna (masterID row)
                    then (case py_int (masterID row) of
                            Inl e \<Rightarrow> Inl e
                          | Inr k \<Rightarrow> Inr (map_of user_id_mapping k))
                    else Inr None) of
                Inl e \<Rightarrow> Inl e
              | Inr master \<Rightarrow>
                  (case insert_request (startDate row) type_id model_id
                          (py_str (problemDescryption row)) status (completionDate row)
                          (repairParts row)
                          master (map_of user_id_mapping client_key) 3 (fst (snd m)) of
                     Inl e \<Rightarrow> Inl e
                   | Inr ins \<Rightarrow>
                       (case py_int (requestID row) of
                          Inl e \<Rightarrow> Inl e
                        | Inr k \<Rightarrow>
                            Inr \<lparr>rs_db = snd ins, rs_types = snd (snd t),
                                 rs_models = snd (snd m),
                                 rs_mapping = AList.update k (fst ins) (rs_mapping st)\<rparr>))))"

text \<open>
  \<^verbatim>\<open>INSERT INTO comments\<close>: both references are foreign keys.
\<close>

definition insert_comment :: "string \<Rightarrow> int \<Rightarrow> int \<Rightarrow> wdb \<Rightarrow> py_error + int \<times> wdb" where
  "insert_comment msg master request db =
     (if master \<notin> user_id ` set (users db) \<or> request \<notin> request_id ` set (repair_requests db)
      then Inl IntegrityError
      else
        (let cid = autoinc (comments_seq db) (map comment_id (comments db))
         in Inr (cid,
              db\<lparr>comments := comments db @
                   [\<lparr>comment_id = cid, c_message = msg, c_master_id = master,
                     c_request_id = request\<rparr>],
                 comments_seq := cid\<rparr>)))"

text \<open>
  One pass of the comments loop (lines 596 to 605). \<^verbatim>\<open>if master_id and request_id\<close>
  holds when both lookups found a key other than 0.
\<close>

definition truthy :: "int option \<Rightarrow> bool" where
  "truthy v = (case v of None \<Rightarrow> False | Some i \<Rightarrow> i \<noteq> 0)"

definition import_comment ::
  "(int \<times> int) list \<Rightarrow> (int \<times> int) list \<Rightarrow> comments_row \<Rightarrow> wdb \<times> nat
     \<Rightarrow> py_error + wdb \<times> nat" where
  "import_comment user_id_mapping request_id_mapping row st =
     (case py_int (c_masterID row) of
        Inl e \<Rightarrow> Inl e
      | Inr mk \<Rightarrow>
          (case py_int (c_requestID row) of
             Inl e \<Rightarrow> Inl e
           | Inr rk \<Rightarrow>
               (let master = map_of user_id_mapping mk;
                    request = map_of request_id_mapping rk
                in if truthy master \<and> truthy request
                   then (case insert_comment (py_str (message row)) (the master) (the request)
                                (fst st) of
                           Inl e \<Rightarrow> Inl e
                         | Inr ins \<Rightarrow> Inr (snd ins, Suc (snd st)))
                   else Inr st)))"

text \<open>The three phases, each inside its own \<^verbatim>\<open>try\<close>.\<close>

definition users_phase ::
  "(string \<Rightarrow> string) \<Rightarrow> users_row xlsx \<Rightarrow> wdb \<Rightarrow> py_error + wdb \<times> (int \<times> int) list" where
  "users_phase sha users_file db =
     (case read_excel users_file of
        Inl e \<Rightarrow> Inl e
      | Inr rows \<Rightarrow> for_rows (import_user sha) rows (db, []))"

definition requests_phase ::
  "(int \<times> int) list \<Rightarrow> string option requests_row xlsx \<Rightarrow> wdb
     \<Rightarrow> py_error + requests_state" where
  "requests_phase user_id_mapping requests_file db =
     (case read_excel requests_file of
        Inl e \<Rightarrow> Inl e
      | Inr rows \<Rightarrow>
          for_rows (import_request user_id_mapping) rows
            \<lparr>rs_db = db, rs_types = [], rs_models = [], rs_mapping = []\<rparr>)"

definition comments_phase ::
  "(int \<times> int) list \<Rightarrow> (int \<times> int) list \<Rightarrow> comments_row xlsx \<Rightarrow> wdb
     \<Rightarrow> py_error + wdb \<times> nat" where
  "comments_phase user_id_mapping request_id_mapping comments_file db =
     (case read_excel comments_file of
        Inl e \<Rightarrow> Inl e
      | Inr rows \<Rightarrow>
          for_rows (import_comment user_id_mapping request_id_mapping) rows (db, 0))"

text \<open>
  \<^verbatim>\<open>import_from_excel\<close>. Nothing is committed before the end, so the \<^verbatim>\<open>rollback\<close> of
  any handler restores the store the call started from. The result is the returned
  dictionary: the flag, which message it carries (the exception text is not kept),
  and the three counters of \<^verbatim>\<open>'stats'\<close>.
\<close>

record import_result =
  ir_success :: bool
  ir_message :: string
  ir_stats :: "(nat \<times> nat \<times> nat) option"

definition import_from_excel ::
  "(string \<Rightarrow> string) \<Rightarrow> users_row xlsx \<Rightarrow> string option requests_row xlsx
     \<Rightarrow> comments_row xlsx \<Rightarrow> wdb
     \<Rightarrow> import_result \<times> wdb" where
  "import_from_excel sha users_file requests_file comments_file db =
     (case users_phase sha users_file db of
        Inl e \<Rightarrow>
          (\<lparr>ir_success = False, ir_message = ''Oshibka pri importe polzovatelej'',
            ir_stats = None\<rparr>, db)
      | Inr u \<Rightarrow>
          (case requests_phase (snd u) requests_file (fst u) of
             Inl e \<Rightarrow>
               (\<lparr>ir_success = False, ir_message = ''Oshibka pri importe zayavok'',
                 ir_stats = None\<rparr>, db)
           | Inr r \<Rightarrow>
               (case comments_phase (snd u) (rs_mapping r) comments_file (rs_db r) of
                  Inl e \<Rightarrow>
                    (\<lparr>ir_success = False, ir_message = ''Oshibka pri importe kommentariev'',
                      ir_stats = None\<rparr>, db)
                | Inr c \<Rightarrow>
                    (\<lparr>ir_success = True, ir_message = ''Dannye uspeshno importirovany'',
                      ir_stats = Some (length (snd u), length (rs_mapping r), snd c)\<rparr>,
                     fst c))))"

subsection \<open>\<^verbatim>\<open>assign_master\<close>, \<^verbatim>\<open>update_request_status\<close>, \<^verbatim>\<open>add_comment\<close>\<close>

text \<open>
  The role names a user carries: the join of \<^verbatim>\<open>users\<close> with \<^verbatim>\<open>user_types\<close> that
  \<^verbatim>\<open>assign_master\<close> queries (lines 773 to 777).
\<close>

definition user_roles :: "wdb \<Rightarrow> int \<Rightarrow> string list" where
  "user_roles db uid =
     concat (map (\<lambda>u. map snd (filter (\<lambda>ut. fst ut = user_type_id u) (user_types db)))
               (filter (\<lambda>u. user_id u = uid) (users db)))"

definition is_master_or_manager :: "wdb \<Rightarrow> int \<Rightarrow> bool" where
  "is_master_or_manager db uid =
     (filter (\<lambda>n. n = ''Master'' \<or> n = ''Menedzher'') (user_roles db uid) \<noteq> [])"

text \<open>
  \<^verbatim>\<open>assign_master\<close> (lines 756 to 815). The two early returns change nothing. A missing
  status row makes \<^verbatim>\<open>cursor.fetchone()['status_id']\<close> raise, and an acting user that is
  not in \<^verbatim>\<open>users\<close> breaks the foreign key of the comment; the handler rolls back and
  returns a failure.
\<close>

definition assign_master :: "int \<Rightarrow> int \<Rightarrow> int \<Rightarrow> wdb \<Rightarrow> w_result \<times> wdb" where
  "assign_master rid mid uid db =
     (case find (\<lambda>r. request_id r = rid) (repair_requests db) of
        None \<Rightarrow> (\<lparr>success = False, w_message = ''Zayavka ne najdena''\<rparr>, db)
      | Some request \<Rightarrow>
          if \<not> is_master_or_manager db mid
          then (\<lparr>success = False, w_message = ''Polzovatel ne yavlyaetsya masterom''\<rparr>, db)
          else
            (case find (\<lambda>s. snd s = ''V protsesse remonta'') (request_statuses db) of
               None \<Rightarrow>
                 (\<lparr>success = False, w_message = ''Oshibka pri naznachenii mastera''\<rparr>, db)
             | Some s \<Rightarrow>
                 (let db1 = db\<lparr>repair_requests :=
                        map (\<lambda>r. if request_id r = rid
                                  then r\<lparr>master_id := Some mid, status_id := fst s\<rparr> else r)
                          (repair_requests db)\<rparr>
                  in case insert_comment ''Master naznachen na zayavku'' uid rid db1 of
                       Inl e \<Rightarrow>
                         (\<lparr>success = False,
                           w_message = ''Oshibka pri naznachenii mastera''\<rparr>, db)
                     | Inr ins \<Rightarrow>
                         (\<lparr>success = True, w_message = ''Master uspeshno naznachen''\<rparr>,
                          snd ins))))"

text \<open>
  \<^verbatim>\<open>update_request_status\<close> (lines 817 to 858); \<open>today\<close> is \<^verbatim>\<open>date('now')\<close>. The
  \<^verbatim>\<open>UPDATE\<close> is refused when a row it rewrites would break the date constraint.
\<close>

definition update_request_status ::
  "string \<Rightarrow> int \<Rightarrow> string \<Rightarrow> int \<Rightarrow> wdb \<Rightarrow> w_result \<times> wdb" where
  "update_request_status today rid status_name uid db =
     (case find (\<lambda>s. snd s = status_name) (request_statuses db) of
        None \<Rightarrow> (\<lparr>success = False, w_message = ''Status ne najden''\<rparr>, db)
      | Some s \<Rightarrow>
          (let upd = (\<lambda>r. if request_id r = rid
                          then r\<lparr>status_id := fst s,
                                 completion_date :=
                                   (if status_name = ''Gotova k vydache'' then Some today
                                    else completion_date r)\<rparr>
                          else r)
           in if list_ex (\<lambda>r. request_id r = rid
                              \<and> \<not> check_dates (start_date r) (completion_date (upd r)))
                   (repair_requests db)
              then (\<lparr>success = False, w_message = ''Oshibka pri obnovlenii statusa''\<rparr>, db)
              else (\<lparr>success = True, w_message = ''Status zayavki obnovlen''\<rparr>,
                    db\<lparr>repair_requests := map upd (repair_requests db)\<rparr>)))"

text \<open>\<^verbatim>\<open>add_comment\<close> (lines 860 to 885).\<close>

definition add_comment :: "int \<Rightarrow> int \<Rightarrow> string \<Rightarrow> wdb \<Rightarrow> w_result \<times> wdb" where
  "add_comment rid mid msg db =
     (case insert_comment msg mid rid db of
        Inl e \<Rightarrow> (\<lparr>success = False, w_message = ''Oshibka pri dobavlenii kommentariya''\<rparr>, db)
      | Inr ins \<Rightarrow> (\<lparr>success = True, w_message = ''Kommentarij dobavlen''\<rparr>, snd ins))"

section \<open>Dates as \<^verbatim>\<open>App.py\<close> handles them\<close>

text \<open>
  \<^verbatim>\<open>load_requests_from_xlsx\<close> turns a date cell into text with
  \<^verbatim>\<open>strftime('%Y-%m-%d %H:%M:%S')\<close> and reads the first ten characters back with
  \<^verbatim>\<open>datetime.strptime(s[:10], '%Y-%m-%d')\<close>. Both are library functions; they are
  modelled here from their documented behaviour. A \<^verbatim>\<open>pd.Timestamp\<close> lies between the
  years 1677 and 2262, so its year prints as four digits.
\<close>

definition is_digit :: "char \<Rightarrow> bool" where
  "is_digit c = (48 \<le> (of_char c :: nat) \<and> (of_char c :: nat) \<le> 57)"

definition digit_val :: "char \<Rightarrow> nat" where
  "digit_val c = (of_char c :: nat) - 48"

definition digit_char :: "nat \<Rightarrow> char" where
  "digit_char n = ''0123456789'' ! n"

definition fmt2 :: "nat \<Rightarrow> string" where
  "fmt2 n = [digit_char (n div 10 mod 10), digit_char (n mod 10)]"

definition fmt4 :: "nat \<Rightarrow> string" where
  "fmt4 n = [digit_char (n div 1000 mod 10), digit_char (n div 100 mod 10),
             digit_char (n div 10 mod 10), digit_char (n mod 10)]"

definition strftime :: "nat \<Rightarrow> nat \<Rightarrow> nat \<Rightarrow> nat \<Rightarrow> nat \<Rightarrow> nat \<Rightarrow> string" where
  "strftime y m d hh mm ss =
     fmt4 y @ ''-'' @ fmt2 m @ ''-'' @ fmt2 d @ '' '' @ fmt2 hh @ '':'' @ fmt2 mm @ '':'' @ fmt2 ss"

definition is_leap :: "nat \<Rightarrow> bool" where
  "is_leap y = (y mod 4 = 0 \<and> (y mod 100 \<noteq> 0 \<or> y mod 400 = 0))"

definition days_in_month :: "nat \<Rightarrow> nat \<Rightarrow> nat" where
  "days_in_month y m =
     (if m = 2 then (if is_leap y then 29 else 28)
      else if m = 4 \<or> m = 6 \<or> m = 9 \<or> m = 11 then 30 else 31)"

text \<open>
  The proleptic Gregorian ordinal of \<^verbatim>\<open>datetime\<close> (\<^verbatim>\<open>_ymd2ord\<close>): the days before the
  year, the days before the month from a table, and the day.
\<close>

definition days_before_year :: "nat \<Rightarrow> int" where
  "days_before_year year =
     (let y = year - 1 in int (y * 365) + int (y div 4) - int (y div 100) + int (y div 400))"

definition days_before_month :: "nat \<Rightarrow> nat \<Rightarrow> int" where
  "days_before_month y m =
     int ([0, 0, 31, 59, 90, 120, 151, 181, 212, 243, 273, 304, 334] ! m)
       + (if 2 < m \<and> is_leap y then 1 else 0)"

definition ymd2ord :: "nat \<times> nat \<times> nat \<Rightarrow> int" where
  "ymd2ord t = (case t of (y, m, d) \<Rightarrow> days_before_year y + days_before_month y m + int d)"

definition valid_date :: "nat \<times> nat \<times> nat \<Rightarrow> bool" where
  "valid_date t = (case t of (y, m, d) \<Rightarrow>
      1 \<le> y \<and> y \<le> 9999 \<and> 1 \<le> m \<and> m \<le> 12 \<and> 1 \<le> d \<and> d \<le> days_in_month y m)"

text \<open>
  \<^verbatim>\<open>strptime\<close> with \<^verbatim>\<open>'%Y-%m-%d'\<close>: four digits, a month written \<^verbatim>\<open>1[0-2]|0[1-9]|[1-9]\<close>,
  a day written \<^verbatim>\<open>3[01]|[12]\d|0[1-9]|[1-9]| [1-9]\<close>, nothing after it, and a date that
  exists. Anything else raises \<^verbatim>\<open>ValueError\<close> (\<open>None\<close>).
\<close>

definition match_year :: "string \<Rightarrow> (nat \<times> string) option" where
  "match_year s =
     (case s of
        a # b # c # d # rest \<Rightarrow>
          if is_digit a \<and> is_digit b \<and> is_digit c \<and> is_digit d
          then Some (1000 * digit_val a + 100 * digit_val b + 10 * digit_val c + digit_val d,
                     rest)
          else None
      | _ \<Rightarrow> None)"

definition is_digit19 :: "char \<Rightarrow> bool" where
  "is_digit19 c = (is_digit c \<and> c \<noteq> CHR ''0'')"

definition match_month :: "string \<Rightarrow> (nat \<times> string) option" where
  "match_month s =
     (case s of
        [] \<Rightarrow> None
      | [a] \<Rightarrow> if is_digit19 a then Some (digit_val a, []) else None
      | a # b # rest \<Rightarrow>
          if a = CHR ''1'' \<and> (b = CHR ''0'' \<or> b = CHR ''1'' \<or> b = CHR ''2'')
          then Some (10 + digit_val b, rest)
          else if a = CHR ''0'' \<and> is_digit19 b then Some (digit_val b, rest)
          else if is_digit19 a then Some (digit_val a, b # rest)
          else None)"

definition match_day :: "string \<Rightarrow> (nat \<times> string) option" where
  "match_day s =
     (case s of
        [] \<Rightarrow> None
      | [a] \<Rightarrow> if is_digit19 a then Some (digit_val a, []) else None
      | a # b # rest \<Rightarrow>
          if a = CHR ''3'' \<and> (b = CHR ''0'' \<or> b = CHR ''1'') then Some (30 + digit_val b, rest)
          else if (a = CHR ''1'' \<or> a = CHR ''2'') \<and> is_digit b
          then Some (10 * digit_val a + digit_val b, rest)
          else if a = CHR ''0'' \<and> is_digit19 b then Some (digit_val b, rest)
          else if is_digit19 a then Some (digit_val a, b # rest)
          else if a = CHR '' '' \<and> is_digit19 b then Some (digit_val b, rest)
          else None)"

definition strptime :: "string \<Rightarrow> (nat \<times> nat \<times> nat) option" where
  "strptime s =
     (case match_year s of
        None \<Rightarrow> None
      | Some (y, s1) \<Rightarrow>
          (case s1 of
             [] \<Rightarrow> None
           | c1 # s2 \<Rightarrow>
               if c1 \<noteq> CHR ''-'' then None
               else
                 (case match_month s2 of
                    None \<Rightarrow> None
                  | Some (m, s3) \<Rightarrow>
                      (case s3 of
                         [] \<Rightarrow> None
                       | c2 # s4 \<Rightarrow>
                           if c2 \<noteq> CHR ''-'' then None
                           else
                             (case match_day s4 of
                                None \<Rightarrow> None
                              | Some (d, s5) \<Rightarrow>
                                  if s5 = [] \<and> valid_date (y, m, d) then Some (y, m, d)
                                  else None)))))"

text \<open>
  Lines 441 to 449: \<^verbatim>\<open>days_in_process\<close> stays \<^verbatim>\<open>None\<close> without a completion date;
  otherwise it is \<^verbatim>\<open>(end_dt - start_dt).days\<close>, or 0 when either \<^verbatim>\<open>strptime\<close> raises.
\<close>

definition derive_days_in_process :: "string \<Rightarrow> string option \<Rightarrow> int option" where
  "derive_days_in_process start completion =
     (case completion of
        None \<Rightarrow> None
      | Some c \<Rightarrow>
          if c = [] then None
          else
            (case strptime (take 10 start) of
               None \<Rightarrow> Some 0
             | Some start_dt \<Rightarrow>
                 (case strptime (take 10 c) of
                    None \<Rightarrow> Some 0
                  | Some end_dt \<Rightarrow> Some (ymd2ord end_dt - ymd2ord start_dt))))"

text \<open>
  What the specification calls the difference in whole days, said without the ordinal:
  the day after a date, and the date reached after \<open>n\<close> such steps.
\<close>

definition next_day :: "nat \<times> nat \<times> nat \<Rightarrow> nat \<times> nat \<times> nat" where
  "next_day t = (case t of (y, m, d) \<Rightarrow>
      if d < days_in_month y m then (y, m, d + 1)
      else if m < 12 then (y, m + 1, 1) else (y + 1, 1, 1))"

definition days_later :: "nat \<Rightarrow> nat \<times> nat \<times> nat \<Rightarrow> nat \<times> nat \<times> nat" where
  "days_later n t = (next_day ^^ n) t"

text \<open>Decimal digits of a number, as an f-string prints it.\<close>

function show_nat :: "nat \<Rightarrow> string" where
  "show_nat n = (if n < 10 then [digit_char n] else show_nat (n div 10) @ [digit_char (n mod 10)])"
  by pat_completeness auto
termination
  by (relation "measure id") auto

declare show_nat.simps [simp del]

section \<open>The store of \<^verbatim>\<open>App.py\<close>\<close>

text \<open>
  The five tables of \<^verbatim>\<open>create_tables_from_scratch\<close>, without the \<^verbatim>\<open>created_at\<close> and
  \<^verbatim>\<open>updated_at\<close> stamps. A column is an \<open>option\<close> where the program itself writes
  \<^verbatim>\<open>NULL\<close> into it. This schema declares no \<^verbatim>\<open>CHECK\<close> constraint and the connection
  never turns foreign keys on. \<open>console\<close> collects the lines that report a failure.
\<close>

record a_user =
  au_id :: int
  au_login :: string
  au_password_hash :: string
  au_fio :: string
  au_phone :: string
  au_user_type :: string

record a_master =
  m_id :: int
  m_user_id :: int
  master_fio :: string
  master_phone :: string
  master_login :: string
  master_type :: string

record a_comment =
  ac_id :: int
  ac_comment_id :: "int option"
  ac_request_id :: int
  ac_master_id :: "int option"
  ac_user_id :: "int option"
  ac_user_fio :: "string option"
  ac_user_type :: "string option"
  ac_message :: string

record service_request =
  sr_id :: int
  sr_request_id :: int
  sr_start_date :: string
  tech_type :: string
  tech_model :: string
  sr_problem_description :: string
  request_status :: string
  sr_completion_date :: "string option"
  days_in_process :: "int option"
  sr_repair_parts :: "string option"
  has_comment :: bool
  sr_master_id :: "int option"
  sr_master_fio :: "string option"
  sr_master_phone :: "string option"
  sr_master_login :: "string option"
  sr_master_type :: "string option"
  sr_client_id :: "int option"
  client_fio :: string
  client_phone :: string
  client_login :: string
  client_type :: string

record status_change =
  sh_id :: int
  sh_request_id :: int
  old_status :: string
  new_status :: string
  changed_by :: string
  sh_comment :: string

datatype console_line =
    UsersFileNotFound | UsersLoadError py_error | UserRowError nat py_error
  | DefaultUsersCreated
  | RequestsFileNotFound | RequestsLoadError py_error | RequestRowError nat py_error
  | CommentsFileNotFound | CommentsLoadError py_error | CommentRowError nat py_error

record adb =
  a_users :: "a_user list"
  a_users_seq :: int
  masters :: "a_master list"
  masters_seq :: int
  a_comments :: "a_comment list"
  a_comments_seq :: int
  service_requests :: "service_request list"
  service_requests_seq :: int
  status_history :: "status_change list"
  status_history_seq :: int
  console :: "console_line list"

definition print_line :: "console_line \<Rightarrow> adb \<Rightarrow> adb" where
  "print_line l db = db\<lparr>console := console db @ [l]\<rparr>"

text \<open>\<^verbatim>\<open>int(x) if pd.notna(x) else None\<close>\<close>

definition opt_int :: "num_cell \<Rightarrow> py_error + int option" where
  "opt_int c =
     (if notna c then (case py_int c of Inl e \<Rightarrow> Inl e | Inr n \<Rightarrow> Inr (Some n)) else Inr None)"

text \<open>\<^verbatim>\<open>x if pd.notna(x) else dflt\<close> on a text cell.\<close>

definition or_else :: "string option \<Rightarrow> string \<Rightarrow> string" where
  "or_else c dflt = (case c of None \<Rightarrow> dflt | Some s \<Rightarrow> s)"

text \<open>
  A loop whose body sits in its own \<^verbatim>\<open>try\<close>: a row that raises is reported with its
  index and the loop goes on with the store as the row found it.
\<close>

fun for_each_row ::
  "(nat \<Rightarrow> 'r \<Rightarrow> adb \<Rightarrow> py_error + adb) \<Rightarrow> (nat \<Rightarrow> py_error \<Rightarrow> console_line) \<Rightarrow> nat
     \<Rightarrow> 'r list \<Rightarrow> adb \<Rightarrow> adb" where
  "for_each_row body report idx [] db = db"
| "for_each_row body report idx (r # rs) db =
     for_each_row body report (Suc idx) rs
       (case body idx r db of
          Inl e \<Rightarrow> print_line (report idx e) db
        | Inr db' \<Rightarrow> db')"

subsection \<open>Users\<close>

abbreviation a_type_mapping :: "(string \<times> string) list" where
  "a_type_mapping \<equiv>
     [(''Menedzher'', ''admin''), (''Master'', ''master''), (''Operator'', ''operator''),
      (''Zakazchik'', ''client'')]"

text \<open>
  \<^verbatim>\<open>INSERT OR REPLACE INTO users (id, login, ...)\<close>: the rows that hold the same key or
  the same login go, the new row comes.
\<close>

definition replace_user :: "a_user \<Rightarrow> adb \<Rightarrow> adb" where
  "replace_user u db =
     db\<lparr>a_users := filter (\<lambda>v. au_id v \<noteq> au_id u \<and> au_login v \<noteq> au_login u) (a_users db) @ [u],
        a_users_seq := max (a_users_seq db) (au_id u)\<rparr>"

text \<open>
  \<^verbatim>\<open>INSERT OR REPLACE INTO masters (user_id, master_fio, ...)\<close>: a fresh key; a row with
  the same \<^verbatim>\<open>master_login\<close> goes.
\<close>

definition replace_master :: "int \<Rightarrow> string \<Rightarrow> string \<Rightarrow> string \<Rightarrow> string \<Rightarrow> adb \<Rightarrow> adb" where
  "replace_master uid f p l t db =
     (let k = autoinc (masters_seq db) (map m_id (masters db))
      in db\<lparr>masters := filter (\<lambda>m. master_login m \<noteq> l) (masters db) @
                [\<lparr>m_id = k, m_user_id = uid, master_fio = f, master_phone = p,
                  master_login = l, master_type = t\<rparr>],
            masters_seq := k\<rparr>)"

text \<open>One pass of the users loop of \<^verbatim>\<open>load_users_from_xlsx\<close> (lines 304 to 342).\<close>

definition load_user_row ::
  "(string \<Rightarrow> string) \<Rightarrow> nat \<Rightarrow> users_row \<Rightarrow> adb \<Rightarrow> py_error + adb" where
  "load_user_row gph idx row db =
     (case (if notna (userID row) then py_int (userID row) else Inr (int idx + 1)) of
        Inl e \<Rightarrow> Inl e
      | Inr uid \<Rightarrow>
          (let user_type = dict_get a_type_mapping (or_else (type row) ''Zakazchik'') ''client'';
               pw = gph (or_else (password row) ''password123'');
               l = or_else (login row) (''user'' @ show_nat (idx + 1));
               f = or_else (fio row) (''Polzovatel '' @ show_nat (idx + 1));
               p = or_else (phone row) '''';
               db1 = replace_user \<lparr>au_id = uid, au_login = l, au_password_hash = pw,
                                    au_fio = f, au_phone = p, au_user_type = user_type\<rparr> db
           in Inr (if user_type = ''master'' then replace_master uid f p l ''Master'' db1
                   else db1)))"

text \<open>
  \<^verbatim>\<open>create_default_users\<close> (lines 563 to 593). \<^verbatim>\<open>INSERT OR IGNORE\<close> skips a row whose
  login is taken.
\<close>

abbreviation default_users :: "(string \<times> string \<times> string \<times> string \<times> string) list" where
  "default_users \<equiv>
     [(''admin'', ''admin123'', ''Administrator Sistemy'', ''88001234567'', ''admin''),
      (''manager1'', ''manager123'', ''Menedzher 1'', ''89501112233'', ''admin''),
      (''master1'', ''master123'', ''Master 1'', ''89502223344'', ''master''),
      (''master2'', ''master123'', ''Master 2'', ''89503334455'', ''master''),
      (''operator1'', ''operator123'', ''Operator 1'', ''89504445566'', ''operator''),
      (''client1'', ''client123'', ''Klient 1'', ''89151234567'', ''client''),
      (''client2'', ''client123'', ''Klient 2'', ''89152345678'', ''client'')]"

definition insert_or_ignore_user ::
  "string \<Rightarrow> string \<Rightarrow> string \<Rightarrow> string \<Rightarrow> string \<Rightarrow> adb \<Rightarrow> adb" where
  "insert_or_ignore_user l pw f p t db =
     (if l \<in> au_login ` set (a_users db) then db
      else
        (let k = autoinc (a_users_seq db) (map au_id (a_users db))
         in db\<lparr>a_users := a_users db @
                  [\<lparr>au_id = k, au_login = l, au_password_hash = pw, au_fio = f,
                    au_phone = p, au_user_type = t\<rparr>],
               a_users_seq := k\<rparr>))"

definition insert_or_ignore_master ::
  "int \<Rightarrow> string \<Rightarrow> string \<Rightarrow> string \<Rightarrow> string \<Rightarrow> adb \<Rightarrow> adb" where
  "insert_or_ignore_master uid f p l t db =
     (if l \<in> master_login ` set (masters db) then db
      else
        (let k = autoinc (masters_seq db) (map m_id (masters db))
         in db\<lparr>masters := masters db @
                  [\<lparr>m_id = k, m_user_id = uid, master_fio = f, master_phone = p,
                    master_login = l, master_type = t\<rparr>],
               masters_seq := k\<rparr>))"

definition create_default_user ::
  "(string \<Rightarrow> string) \<Rightarrow> string \<times> string \<times> string \<times> string \<times> string \<Rightarrow> adb \<Rightarrow> adb" where
  "create_default_user gph d db =
     (case d of (l, pw, f, p, t) \<Rightarrow>
        (let db1 = insert_or_ignore_user l (gph pw) f p t db
         in if t = ''master''
            then (case find (\<lambda>u. au_login u = l) (a_users db1) of
                    None \<Rightarrow> db1
                  | Some user_row \<Rightarrow> insert_or_ignore_master (au_id user_row) f p l ''Master'' db1)
            else db1))"

definition create_default_users :: "(string \<Rightarrow> string) \<Rightarrow> adb \<Rightarrow> adb" where
  "create_default_users gph db =
     print_line DefaultUsersCreated (fold (create_default_user gph) default_users db)"

text \<open>
  \<^verbatim>\<open>load_users_from_xlsx\<close> (lines 284 to 348). \<open>gph\<close> stands for werkzeug's
  \<^verbatim>\<open>generate_password_hash\<close>.
\<close>

definition load_users_from_xlsx :: "(string \<Rightarrow> string) \<Rightarrow> users_row xlsx \<Rightarrow> adb \<Rightarrow> adb" where
  "load_users_from_xlsx gph users_file db =
     (case users_file of
        Missing \<Rightarrow> create_default_users gph (print_line UsersFileNotFound db)
      | Unreadable \<Rightarrow> create_default_users gph (print_line (UsersLoadError ValueError) db)
      | Sheet rows \<Rightarrow> for_each_row (load_user_row gph) UserRowError 0 rows db)"

subsection \<open>Requests\<close>

text \<open>
  The sheet of \<^verbatim>\<open>service_requests_combined.xlsx\<close>; the loader takes this branch when the
  sheet has a column \<^verbatim>\<open>client_id\<close>.
\<close>

record combined_row =
  cr_request_id :: num_cell
  cr_start_date :: "string option"
  cr_tech_type :: "string option"
  cr_tech_model :: "string option"
  cr_problem_description :: "string option"
  cr_request_status :: "string option"
  cr_completion_date :: "string option"
  cr_days_in_process :: num_cell
  cr_repair_parts :: "string option"
  cr_has_comment :: "bool option"
  cr_master_id :: num_cell
  cr_master_fio :: "string option"
  cr_master_phone :: "string option"
  cr_master_login :: "string option"
  cr_client_id :: num_cell
  cr_client_fio :: "string option"
  cr_client_phone :: "string option"
  cr_client_login :: "string option"
  cr_client_type :: "string option"

datatype requests_file =
  NoFile | BadFile | InputLayout "date_cell requests_row list" | CombinedLayout "combined_row list"

text \<open>
  \<^verbatim>\<open>INSERT OR REPLACE INTO service_requests\<close>: a fresh key; the row that holds the same
  \<^verbatim>\<open>request_id\<close> goes.
\<close>

definition replace_service_request :: "service_request \<Rightarrow> adb \<Rightarrow> adb" where
  "replace_service_request r db =
     (let k = autoinc (service_requests_seq db) (map sr_id (service_requests db))
      in db\<lparr>service_requests :=
              filter (\<lambda>q. sr_request_id q \<noteq> sr_request_id r) (service_requests db)
                @ [r\<lparr>sr_id := k\<rparr>],
            service_requests_seq := k\<rparr>)"

definition cell_text :: "string \<Rightarrow> date_cell \<Rightarrow> string option" where
  "cell_text now c =
     (case c of
        NaT \<Rightarrow> None
      | Timestamp y m d hh mm ss \<Rightarrow> Some (strftime y m d hh mm ss)
      | DateText s \<Rightarrow> Some s)"

text \<open>
  The branch for \<^verbatim>\<open>inputDataRequests.xlsx\<close> (lines 411 to 479). \<open>now\<close> is
  \<^verbatim>\<open>datetime.now().strftime('%Y-%m-%d %H:%M:%S')\<close>.
\<close>

definition load_input_request ::
  "string \<Rightarrow> nat \<Rightarrow> date_cell requests_row \<Rightarrow> adb \<Rightarrow> py_error + adb" where
  "load_input_request now idx row db =
     (case opt_int (clientID row) of
        Inl e \<Rightarrow> Inl e
      | Inr client \<Rightarrow>
          (case opt_int (masterID row) of
             Inl e \<Rightarrow> Inl e
           | Inr master \<Rightarrow>
               (let client_data =
                      (case client of
                         None \<Rightarrow> None
                       | Some c \<Rightarrow> find (\<lambda>u. au_id u = c) (a_users db));
                    master_data =
                      (if truthy master then find (\<lambda>m. Some (m_id m) = master) (masters db)
                       else None);
                    start = (case cell_text now (startDate row) of None \<Rightarrow> now | Some s \<Rightarrow> s);
                    completion = cell_text now (completionDate row)
                in case py_int (requestID row) of
                     Inl e \<Rightarrow> Inl e
                   | Inr rid \<Rightarrow>
                       Inr (replace_service_request
                         \<lparr>sr_id = 0, sr_request_id = rid, sr_start_date = start,
                          tech_type = or_else (homeTechType row) '''',
                          tech_model = or_else (homeTechModel row) '''',
                          sr_problem_description = or_else (problemDescryption row) '''',
                          request_status = or_else (requestStatus row) ''Novaya zayavka'',
                          sr_completion_date = completion,
                          days_in_process = derive_days_in_process start completion,
                          sr_repair_parts = Some (or_else (repairParts row) ''''),
                          has_comment = False,
                          sr_master_id = master,
                          sr_master_fio =
                            Some (case master_data of None \<Rightarrow> '''' | Some m \<Rightarrow> master_fio m),
                          sr_master_phone =
                            Some (case master_data of None \<Rightarrow> '''' | Some m \<Rightarrow> master_phone m),
                          sr_master_login =
                            Some (case master_data of None \<Rightarrow> '''' | Some m \<Rightarrow> master_login m),
                          sr_master_type =
                            Some (case master_data of None \<Rightarrow> '''' | Some m \<Rightarrow> ''Master''),
                          sr_client_id = client,
                          client_fio =
                            (case client_data of None \<Rightarrow> ''Neizvestnyj klient''
                             | Some u \<Rightarrow> au_fio u),
                          client_phone =
                            (case client_data of None \<Rightarrow> '''' | Some u \<Rightarrow> au_phone u),
                          client_login =
                            (case client_data of None \<Rightarrow> '''' | Some u \<Rightarrow> au_login u),
                          client_type =
                            (case client_data of None \<Rightarrow> ''client''
                             | Some u \<Rightarrow> au_user_type u)\<rparr> db))))"

text \<open>
  The branch for \<^verbatim>\<open>service_requests_combined.xlsx\<close> (lines 368 to 409): every column is
  taken from the sheet, \<^verbatim>\<open>days_in_process\<close> and \<^verbatim>\<open>has_comment\<close> among them.
\<close>

definition load_combined_request ::
  "string \<Rightarrow> nat \<Rightarrow> combined_row \<Rightarrow> adb \<Rightarrow> py_error + adb" where
  "load_combined_request now idx row db =
     (case opt_int (cr_client_id row) of
        Inl e \<Rightarrow> Inl e
      | Inr client \<Rightarrow>
          (case opt_int (cr_master_id row) of
             Inl e \<Rightarrow> Inl e
           | Inr master \<Rightarrow>
               (case (if notna (cr_request_id row) then py_int (cr_request_id row)
                      else Inr (int idx + 1)) of
                  Inl e \<Rightarrow> Inl e
                | Inr rid \<Rightarrow>
                    (case (if notna (cr_days_in_process row)
                           then py_int (cr_days_in_process row) else Inr 0) of
                       Inl e \<Rightarrow> Inl e
                     | Inr days \<Rightarrow>
                         Inr (replace_service_request
                           \<lparr>sr_id = 0, sr_request_id = rid,
                            sr_start_date = or_else (cr_start_date row) now,
                            tech_type = or_else (cr_tech_type row) '''',
                            tech_model = or_else (cr_tech_model row) '''',
                            sr_problem_description = or_else (cr_problem_description row) '''',
                            request_status =
                              or_else (cr_request_status row) ''Novaya zayavka'',
                            sr_completion_date = cr_completion_date row,
                            days_in_process = Some days,
                            sr_repair_parts = Some (or_else (cr_repair_parts row) ''''),
                            has_comment =
                              (case cr_has_comment row of None \<Rightarrow> False | Some b \<Rightarrow> b),
                            sr_master_id = master,
                            sr_master_fio = Some (or_else (cr_master_fio row) ''''),
                            sr_master_phone = Some (or_else (cr_master_phone row) ''''),
                            sr_master_login = Some (or_else (cr_master_login row) ''''),
                            sr_master_type = Some (if truthy master then ''Master'' else ''''),
                            sr_client_id = client,
                            client_fio = or_else (cr_client_fio row) ''Neizvestnyj klient'',
                            client_phone = or_else (cr_client_phone row) '''',
                            client_login = or_else (cr_client_login row) '''',
                            client_type = or_else (cr_client_type row) ''client''\<rparr> db)))))"

text \<open>
  \<^verbatim>\<open>load_requests_from_xlsx\<close> (lines 350 to 487): the combined file when it is there,
  the input file otherwise.
\<close>

definition load_requests_from_xlsx :: "string \<Rightarrow> requests_file \<Rightarrow> requests_file \<Rightarrow> adb \<Rightarrow> adb" where
  "load_requests_from_xlsx now combined_file input_file db =
     (case (if combined_file \<noteq> NoFile then combined_file else input_file) of
        NoFile \<Rightarrow> print_line RequestsFileNotFound db
      | BadFile \<Rightarrow> print_line (RequestsLoadError ValueError) db
      | InputLayout rows \<Rightarrow> for_each_row (load_input_request now) RequestRowError 0 rows db
      | CombinedLayout rows \<Rightarrow>
          for_each_row (load_combined_request now) RequestRowError 0 rows db)"

subsection \<open>Comments\<close>

text \<open>
  \<^verbatim>\<open>INSERT OR REPLACE INTO comments\<close>: the key is fresh and nothing else is unique, so the
  row is added; a \<^verbatim>\<open>NULL\<close> in \<^verbatim>\<open>request_id\<close> or \<^verbatim>\<open>message\<close> breaks \<^verbatim>\<open>NOT NULL\<close>.
\<close>

definition insert_a_comment ::
  "int option \<Rightarrow> int option \<Rightarrow> int option \<Rightarrow> int option \<Rightarrow> string option \<Rightarrow> string option
     \<Rightarrow> string option \<Rightarrow> adb \<Rightarrow> py_error + adb" where
  "insert_a_comment cid rid mid uid ufio utype msg db =
     (case rid of
        None \<Rightarrow> Inl IntegrityError
      | Some rid' \<Rightarrow>
          (case msg of
             None \<Rightarrow> Inl IntegrityError
           | Some msg' \<Rightarrow>
               (let k = autoinc (a_comments_seq db) (map ac_id (a_comments db))
                in Inr (db\<lparr>a_comments := a_comments db @
                           [\<lparr>ac_id = k, ac_comment_id = cid, ac_request_id = rid',
                             ac_master_id = mid, ac_user_id = uid, ac_user_fio = ufio,
                             ac_user_type = utype, ac_message = msg'\<rparr>],
                         a_comments_seq := k\<rparr>))))"

text \<open>\<^verbatim>\<open>UPDATE service_requests SET has_comment = 1 WHERE request_id = ?\<close>\<close>

definition set_has_comment :: "int \<Rightarrow> adb \<Rightarrow> adb" where
  "set_has_comment rid db =
     db\<lparr>service_requests :=
          map (\<lambda>r. if sr_request_id r = rid then r\<lparr>has_comment := True\<rparr> else r)
            (service_requests db)\<rparr>"

text \<open>
  One pass of the comments loop of \<^verbatim>\<open>load_comments_from_xlsx\<close> (lines 515 to 556). The
  two dictionaries are read from \<^verbatim>\<open>masters\<close> and \<^verbatim>\<open>users\<close>, which the loop does not
  change. The flag is raised under \<^verbatim>\<open>if request_id:\<close>.
\<close>

definition load_comment_row :: "nat \<Rightarrow> comments_row \<Rightarrow> adb \<Rightarrow> py_error + adb" where
  "load_comment_row idx row db =
     (case opt_int (commentID row) of
        Inl e \<Rightarrow> Inl e
      | Inr cid \<Rightarrow>
          (case opt_int (c_requestID row) of
             Inl e \<Rightarrow> Inl e
           | Inr rid \<Rightarrow>
               (case opt_int (c_masterID row) of
                  Inl e \<Rightarrow> Inl e
                | Inr mid \<Rightarrow>
                    (let master_row =
                           (case mid of
                              None \<Rightarrow> None
                            | Some k \<Rightarrow> map_of (map (\<lambda>m. (m_id m, m)) (masters db)) k);
                         uid = (case master_row of None \<Rightarrow> None | Some m \<Rightarrow> Some (m_user_id m));
                         ufio = (case master_row of None \<Rightarrow> None | Some m \<Rightarrow> Some (master_fio m));
                         utype =
                           (case master_row of
                              None \<Rightarrow> None
                            | Some m \<Rightarrow>
                                Some (dict_get (map (\<lambda>u. (au_id u, au_user_type u)) (a_users db))
                                        (m_user_id m) ''master''))
                     in case insert_a_comment cid rid mid uid ufio utype
                               (Some (or_else (message row) '''')) db of
                          Inl e \<Rightarrow> Inl e
                        | Inr db1 \<Rightarrow>
                            Inr (if truthy rid then set_has_comment (the rid) db1 else db1)))))"

text \<open>\<^verbatim>\<open>load_comments_from_xlsx\<close> (lines 489 to 561).\<close>

definition load_comments_from_xlsx :: "comments_row xlsx \<Rightarrow> adb \<Rightarrow> adb" where
  "load_comments_from_xlsx comments_file db =
     (case comments_file of
        Missing \<Rightarrow> print_line CommentsFileNotFound db
      | Unreadable \<Rightarrow> print_line (CommentsLoadError ValueError) db
      | Sheet rows \<Rightarrow> for_each_row load_comment_row CommentRowError 0 rows db)"

text \<open>\<^verbatim>\<open>load_all_data\<close> (lines 273 to 282).\<close>

definition load_all_data ::
  "(string \<Rightarrow> string) \<Rightarrow> string \<Rightarrow> users_row xlsx \<Rightarrow> requests_file \<Rightarrow> requests_file
     \<Rightarrow> comments_row xlsx \<Rightarrow> adb \<Rightarrow> adb" where
  "load_all_data gph now users_file combined_file input_file comments_file db =
     load_comments_from_xlsx comments_file
       (load_requests_from_xlsx now combined_file input_file
          (load_users_from_xlsx gph users_file db))"

subsection \<open>The two write endpoints\<close>

record session =
  s_user_id :: "int option"
  s_user_type :: "string option"
  s_user_name :: "string option"
  s_user_login :: "string option"

record response =
  r_success :: bool
  r_status :: nat
  r_error :: string

text \<open>
  \<^verbatim>\<open>assign_master\<close> (lines 2481 to 2522). The target is a key of the \<^verbatim>\<open>masters\<close> table.
\<close>

definition a_assign_master :: "session \<Rightarrow> int option \<Rightarrow> int \<Rightarrow> adb \<Rightarrow> response \<times> adb" where
  "a_assign_master sess mid rid db =
     (if s_user_type sess \<notin> {Some ''admin'', Some ''manager'', Some ''operator''}
      then (\<lparr>r_success = False, r_status = 403, r_error = ''Nedostatochno prav''\<rparr>, db)
      else if \<not> truthy mid
      then (\<lparr>r_success = False, r_status = 400, r_error = ''Ne ukazan ID mastera''\<rparr>, db)
      else
        (case find (\<lambda>m. Some (m_id m) = mid) (masters db) of
           None \<Rightarrow> (\<lparr>r_success = False, r_status = 404, r_error = ''Master ne najden''\<rparr>, db)
         | Some m \<Rightarrow>
             (let k = autoinc (status_history_seq db) (map sh_id (status_history db))
              in (\<lparr>r_success = True, r_status = 200, r_error = ''''\<rparr>,
                  db\<lparr>service_requests :=
                       map (\<lambda>r. if sr_request_id r = rid
                                 then r\<lparr>sr_master_id := mid,
                                        sr_master_fio := Some (master_fio m),
                                        sr_master_phone := Some (master_phone m),
                                        sr_master_login := Some (master_login m),
                                        request_status := ''V protsesse remonta''\<rparr>
                                 else r) (service_requests db),
                     status_history := status_history db @
                       [\<lparr>sh_id = k, sh_request_id = rid, old_status = ''Novaya zayavka'',
                         new_status = ''V protsesse remonta'',
                         changed_by = or_else (s_user_name sess) ''Sistema'',
                         sh_comment = ''Naznachen master: '' @ master_fio m\<rparr>],
                     status_history_seq := k\<rparr>))))"

text \<open>
  \<^verbatim>\<open>add_comment\<close> (lines 2674 to 2725). The body of the request carries
  \<^verbatim>\<open>request_id\<close> and \<^verbatim>\<open>message\<close> (a missing key raises \<^verbatim>\<open>KeyError\<close>, a \<^verbatim>\<open>null\<close> breaks
  \<^verbatim>\<open>NOT NULL\<close>; both end in the handler) and, if given, \<^verbatim>\<open>repair_parts\<close>.
\<close>

record comment_body =
  b_request_id :: "int option"
  b_message :: "string option"
  b_repair_parts :: "string option"

definition a_add_comment :: "session \<Rightarrow> comment_body \<Rightarrow> adb \<Rightarrow> response \<times> adb" where
  "a_add_comment sess body db =
     (case s_user_id sess of
        None \<Rightarrow> (\<lparr>r_success = False, r_status = 401, r_error = ''Trebuetsya avtorizaciya''\<rparr>, db)
      | Some uid \<Rightarrow>
          (let mid = (if s_user_type sess = Some ''master''
                      then (case find (\<lambda>m. m_user_id m = uid) (masters db) of
                              None \<Rightarrow> None
                            | Some m \<Rightarrow> Some (m_id m))
                      else None)
           in case insert_a_comment None (b_request_id body) mid (Some uid) (s_user_name sess)
                     (s_user_type sess) (b_message body) db of
                Inl e \<Rightarrow> (\<lparr>r_success = False, r_status = 500, r_error = ''error''\<rparr>, db)
              | Inr db1 \<Rightarrow>
                  (let rid = the (b_request_id body);
                       db2 = set_has_comment rid db1;
                       db3 = (case b_repair_parts body of
                                None \<Rightarrow> db2
                              | Some parts \<Rightarrow>
                                  if parts = [] then db2
                                  else db2\<lparr>service_requests :=
                                         map (\<lambda>r. if sr_request_id r = rid
                                                   then r\<lparr>sr_repair_parts :=
                                                     Some ((case sr_repair_parts r of
                                                              None \<Rightarrow> ''''
                                                            | Some old \<Rightarrow> old @ '', '') @ parts)\<rparr>
                                                   else r) (service_requests db2)\<rparr>)
                   in (\<lparr>r_success = True, r_status = 200, r_error = ''''\<rparr>, db3))))"

section \<open>Schema drift correction in \<^verbatim>\<open>App.py\<close>\<close>





























section \<open>Example stores\<close>

text \<open>
  A store of \<^verbatim>\<open>Work_DB.py\<close> after \<^verbatim>\<open>initialize_database\<close>, with a client (Alice), a
  master (Bob) and one new request of Alice.
\<close>

definition db0 :: wdb where
  "db0 =
     \<lparr>user_types = [(1, ''Menedzher''), (2, ''Master''), (3, ''Operator''), (4, ''Zakazchik'')],
      users = [\<lparr>user_id = 1, full_name = ''Alice'', u_phone = ''1'', u_login = ''alice'',
                password_hash = ''h'', user_type_id = 4, is_active = True\<rparr>,
               \<lparr>user_id = 2, full_name = ''Bob'', u_phone = ''2'', u_login = ''bob'',
                password_hash = ''h'', user_type_id = 2, is_active = True\<rparr>],
      users_seq = 2,
      equipment_types = [(1, ''Fridge'')], equipment_types_seq = 1,
      equipment_models = [(1, ''X100'', 1)], equipment_models_seq = 1,
      request_statuses = [(1, ''Novaya zayavka''), (2, ''V protsesse remonta''),
        (3, ''Gotova k vydache''), (4, ''Vypolnena''), (5, ''Otmenena'')],
      repair_requests = [\<lparr>request_id = 1, start_date = ''2023-06-06'', equipment_type_id = 1,
        equipment_model_id = 1, problem_description = ''broken'', status_id = 1,
        completion_date = None, repair_parts = None, master_id = None, client_id = 1,
        priority = 3\<rparr>],
      repair_requests_seq = 1, comments = [], comments_seq = 0\<rparr>"

text \<open>
  An empty store of \<^verbatim>\<open>App.py\<close> (the tables of \<^verbatim>\<open>create_tables_from_scratch\<close> before
  anything is loaded), an operator's session, and a users sheet whose two rows carry the
  same \<^verbatim>\<open>userID\<close> and login: Bob is a master in the first row and a client in the second.
  \<open>stale_db\<close> is the store after \<^verbatim>\<open>load_all_data\<close> on that sheet and one request.
\<close>

definition adb_empty :: adb where
  "adb_empty =
     \<lparr>a_users = [], a_users_seq = 0, masters = [], masters_seq = 0, a_comments = [],
      a_comments_seq = 0, service_requests = [], service_requests_seq = 0,
      status_history = [], status_history_seq = 0, console = []\<rparr>"

definition operator_session :: session where
  "operator_session =
     \<lparr>s_user_id = Some 5, s_user_type = Some ''operator'', s_user_name = Some ''Operator'',
      s_user_login = Some ''perinaAD''\<rparr>"

definition bob_rows :: "users_row list" where
  "bob_rows =
     [\<lparr>userID = Num 1, fio = Some ''Bob'', phone = Some ''100'', login = Some ''bob'',
       password = Some ''pw'', type = Some ''Master''\<rparr>,
      \<lparr>userID = Num 1, fio = Some ''Bob'', phone = Some ''100'', login = Some ''bob'',
       password = Some ''pw'', type = Some ''Zakazchik''\<rparr>]"

definition request7 :: "date_cell requests_row" where
  "request7 =
     \<lparr>requestID = Num 7, startDate = DateText ''2023-06-06'', homeTechType = Some ''Fridge'',
      homeTechModel = Some ''X100'', problemDescryption = Some ''broken'',
      requestStatus = Some ''Novaya zayavka'', completionDate = NaT, repairParts = None,
      masterID = NaN, clientID = Num 1\<rparr>"

definition stale_db :: adb where
  "stale_db =
     load_all_data (\<lambda>p. p) ''2023-07-01 10:00:00'' (Sheet bob_rows) NoFile
       (InputLayout [request7]) Missing adb_empty"

text \<open>
  A users sheet with one master, a requests sheet whose only request has the number 0,
  and a comments sheet with one comment on that request; \<open>zero_db\<close> is the store after
  \<^verbatim>\<open>load_all_data\<close>. \<open>seven_db\<close> is the same with the request number 7.
\<close>

definition master_rows :: "users_row list" where
  "master_rows =
     [\<lparr>userID = Num 1, fio = Some ''Bob'', phone = Some ''100'', login = Some ''bob'',
       password = Some ''pw'', type = Some ''Master''\<rparr>]"

definition request_numbered :: "int \<Rightarrow> date_cell requests_row" where
  "request_numbered n =
     \<lparr>requestID = Num n, startDate = DateText ''2023-06-06'', homeTechType = Some ''Fridge'',
      homeTechModel = Some ''X100'', problemDescryption = Some ''broken'',
      requestStatus = Some ''Novaya zayavka'', completionDate = NaT, repairParts = None,
      masterID = Num 1, clientID = Num 1\<rparr>"

definition comment_on :: "int \<Rightarrow> comments_row" where
  "comment_on n =
     \<lparr>commentID = Num 1, message = Some ''ordered the part'', c_masterID = Num 1,
      c_requestID = Num n\<rparr>"

definition zero_db :: adb where
  "zero_db =
     load_all_data (\<lambda>p. p) ''2023-07-01 10:00:00'' (Sheet master_rows) NoFile
       (InputLayout [request_numbered 0]) (Sheet [comment_on 0]) adb_empty"

definition seven_db :: adb where
  "seven_db =
     load_all_data (\<lambda>p. p) ''2023-07-01 10:00:00'' (Sheet master_rows) NoFile
       (InputLayout [request_numbered 7]) (Sheet [comment_on 7]) adb_empty"



section \<open>Verified properties\<close>

subsection \<open>Master assignment in \<^verbatim>\<open>Work_DB.py\<close>\<close>

lemma insert_comment_Inr:
  "insert_comment msg m r db = Inr ins \<Longrightarrow>
     comments (snd ins) = comments db @
        [\<lparr>comment_id = fst ins, c_message = msg, c_master_id = m, c_request_id = r\<rparr>]
     \<and> repair_requests (snd ins) = repair_requests db
     \<and> users (snd ins) = users db
     \<and> request_statuses (snd ins) = request_statuses db"
  by (auto simp: insert_comment_def Let_def split: if_splits)

lemma find_Some_mem: "find P xs = Some x \<Longrightarrow> x \<in> set xs \<and> P x"
  by (induction xs) (simp_all split: if_splits)

lemma a_assign_master_no_row:
  assumes "find (\<lambda>m. Some (m_id m) = amid) (masters adb) = None"
  shows "\<not> r_success (fst (a_assign_master sess amid arid adb))
     \<and> r_error (fst (a_assign_master sess amid arid adb)) \<noteq> []
     \<and> snd (a_assign_master sess amid arid adb) = adb"
  using assms by (simp add: a_assign_master_def)

lemma a_assign_master_success:
  assumes "r_success (fst (a_assign_master sess amid arid adb))"
  shows "\<exists>m. find (\<lambda>m. Some (m_id m) = amid) (masters adb) = Some m
     \<and> s_user_type sess \<in> {Some ''admin'', Some ''manager'', Some ''operator''}
     \<and> truthy amid"
proof (cases "find (\<lambda>m. Some (m_id m) = amid) (masters adb)")
  case None
  from a_assign_master_no_row [OF None] assms show ?thesis by simp
next
  case (Some m)
  have "s_user_type sess \<in> {Some ''admin'', Some ''manager'', Some ''operator''}"
  proof (rule ccontr)
    assume "\<not> ?thesis"
    then have "\<not> r_success (fst (a_assign_master sess amid arid adb))"
      by (simp add: a_assign_master_def)
    with assms show False by simp
  qed
  moreover have "truthy amid"
  proof (rule ccontr)
    assume "\<not> ?thesis"
    then have "\<not> r_success (fst (a_assign_master sess amid arid adb))"
      by (simp add: a_assign_master_def)
    with assms show False by simp
  qed
  ultimately show ?thesis using Some by simp
qed

text \<open>
  Claim C5, as amended. \<^verbatim>\<open>Work_DB.assign_master\<close> succeeds only when the target user
  carries the role Master or Manager, and for a target whose roles are among Client and
  Operator it returns the failure dictionary (flag false, a message) and leaves the store,
  so also the request's master reference, as it was. The endpoint \<^verbatim>\<open>assign_master\<close> of
  \<^verbatim>\<open>App.py\<close> never reads a role: it succeeds only when its target is the key of a row of
  \<^verbatim>\<open>masters\<close>, and a target that is no such key gets the failure envelope (flag false,
  an error text) with the store as it was.
\<close>

theorem assign_master_role:
  "(success (fst (assign_master rid mid uid db)) \<longrightarrow>
      (\<exists>n \<in> set (user_roles db mid). n = ''Master'' \<or> n = ''Menedzher''))
   \<and> (set (user_roles db mid) \<subseteq> {''Zakazchik'', ''Operator''} \<longrightarrow>
        \<not> success (fst (assign_master rid mid uid db))
        \<and> w_message (fst (assign_master rid mid uid db)) \<noteq> []
        \<and> snd (assign_master rid mid uid db) = db)
   \<and> (r_success (fst (a_assign_master sess amid arid adb)) \<longrightarrow>
        (\<exists>m \<in> set (masters adb). Some (m_id m) = amid))
   \<and> ((\<forall>m \<in> set (masters adb). Some (m_id m) \<noteq> amid) \<longrightarrow>
        \<not> r_success (fst (a_assign_master sess amid arid adb))
        \<and> r_error (fst (a_assign_master sess amid arid adb)) \<noteq> []
        \<and> snd (a_assign_master sess amid arid adb) = adb)"
proof (intro conjI impI)
  assume "success (fst (assign_master rid mid uid db))"
  then have "is_master_or_manager db mid"
    by (auto simp: assign_master_def split: option.splits if_splits)
  then obtain n where
    "n \<in> set (filter (\<lambda>n. n = ''Master'' \<or> n = ''Menedzher'') (user_roles db mid))"
    unfolding is_master_or_manager_def
    by (cases "filter (\<lambda>n. n = ''Master'' \<or> n = ''Menedzher'') (user_roles db mid)") auto
  then show "\<exists>n \<in> set (user_roles db mid). n = ''Master'' \<or> n = ''Menedzher''" by auto
next
  assume a: "set (user_roles db mid) \<subseteq> {''Zakazchik'', ''Operator''}"
  then have "filter (\<lambda>n. n = ''Master'' \<or> n = ''Menedzher'') (user_roles db mid) = []"
    by (auto simp: filter_empty_conv)
  then have n: "\<not> is_master_or_manager db mid" by (simp add: is_master_or_manager_def)
  show "\<not> success (fst (assign_master rid mid uid db))"
    using n by (auto simp: assign_master_def split: option.splits)
  show "w_message (fst (assign_master rid mid uid db)) \<noteq> []"
    using n by (auto simp: assign_master_def split: option.splits)
  show "snd (assign_master rid mid uid db) = db"
    using n by (auto simp: assign_master_def split: option.splits)
next
  assume "r_success (fst (a_assign_master sess amid arid adb))"
  from a_assign_master_success [OF this] obtain m where
    "find (\<lambda>m. Some (m_id m) = amid) (masters adb) = Some m" by (elim exE conjE)
  from find_Some_mem [OF this] have m: "m \<in> set (masters adb)" and e: "Some (m_id m) = amid"
    by simp_all
  show "\<exists>m \<in> set (masters adb). Some (m_id m) = amid"
    by (rule bexI [where x = m and P = "\<lambda>m. Some (m_id m) = amid"]) (rule e, rule m)
next
  assume "\<forall>m \<in> set (masters adb). Some (m_id m) \<noteq> amid"
  then have none: "find (\<lambda>m. Some (m_id m) = amid) (masters adb) = None"
    by (simp add: find_None_iff)
  note r = a_assign_master_no_row [OF none, of sess arid]
  from r show "\<not> r_success (fst (a_assign_master sess amid arid adb))" by simp
  from r show "r_error (fst (a_assign_master sess amid arid adb)) \<noteq> []" by simp
  from r show "snd (a_assign_master sess amid arid adb) = adb" by simp
qed

theorem assign_master_role_witness:
  "set (user_roles db0 1) \<subseteq> {''Zakazchik'', ''Operator''}
   \<and> \<not> success (fst (assign_master 1 1 2 db0))
   \<and> snd (assign_master 1 1 2 db0) = db0
   \<and> success (fst (assign_master 1 2 2 db0))
   \<and> (\<exists>n \<in> set (user_roles db0 2). n = ''Master'' \<or> n = ''Menedzher'')
   \<and> r_success (fst (a_assign_master operator_session (Some 1) 7 stale_db))
   \<and> (\<exists>m \<in> set (masters stale_db). Some (m_id m) = Some 1)
   \<and> map m_id (masters stale_db) = [1]
   \<and> \<not> r_success (fst (a_assign_master operator_session (Some 2) 7 stale_db))
   \<and> snd (a_assign_master operator_session (Some 2) 7 stale_db) = stale_db"
proof -
  have h: "set (user_roles db0 1) \<subseteq> {''Zakazchik'', ''Operator''}"
    by (simp add: db0_def user_roles_def)
  have s: "success (fst (assign_master 1 2 2 db0))"
    by (simp add: db0_def assign_master_def is_master_or_manager_def user_roles_def
        insert_comment_def autoinc_def Let_def)
  have s2: "r_success (fst (a_assign_master operator_session (Some 1) 7 stale_db))"
    by code_simp
  have ids: "map m_id (masters stale_db) = [1]" by code_simp
  have n2: "\<forall>m \<in> set (masters stale_db). Some (m_id m) \<noteq> Some 2"
  proof
    fix m assume "m \<in> set (masters stale_db)"
    then have "m_id m \<in> set (map m_id (masters stale_db))" by simp
    then show "Some (m_id m) \<noteq> Some 2" by (simp only: ids) simp
  qed
  from assign_master_role [of 1 1 2 db0 operator_session "Some 1" 7 stale_db]
    assign_master_role [of 1 2 2 db0 operator_session "Some 2" 7 stale_db] h s s2 n2 ids
  show ?thesis by (simp only: simp_thms)
qed

text \<open>
  The claim as it stands fails on \<^verbatim>\<open>App.py\<close>: after the two rows of \<open>bob_rows\<close> the
  users table calls Bob a client, the row that the first pass put into \<^verbatim>\<open>masters\<close> is
  still there, and the endpoint assigns him.
\<close>

theorem assign_master_role_counterexample:
  "map (\<lambda>u. (au_id u, au_login u, au_user_type u)) (a_users stale_db) = [(1, ''bob'', ''client'')]
   \<and> map (\<lambda>m. (m_id m, m_user_id m, master_login m)) (masters stale_db) = [(1, 1, ''bob'')]
   \<and> r_success (fst (a_assign_master operator_session (Some 1) 7 stale_db))
   \<and> map (\<lambda>r. (sr_request_id r, sr_master_id r, request_status r)) (service_requests stale_db)
       = [(7, None, ''Novaya zayavka'')]
   \<and> map (\<lambda>r. (sr_request_id r, sr_master_id r, request_status r))
         (service_requests (snd (a_assign_master operator_session (Some 1) 7 stale_db)))
       = [(7, Some 1, ''V protsesse remonta'')]"
  by code_simp

subsection \<open>What a successful assignment writes\<close>

lemma ex_after_update:
  assumes "\<exists>r \<in> set xs. request_id r = rid"
  shows "\<exists>r \<in> set (map (\<lambda>r. if request_id r = rid
                               then r\<lparr>master_id := Some mid, status_id := s\<rparr> else r) xs).
           request_id r = rid"
proof -
  let ?f = "\<lambda>r. if request_id r = rid then r\<lparr>master_id := Some mid, status_id := s\<rparr> else r"
  from assms obtain r0 where r0: "r0 \<in> set xs" "request_id r0 = rid" by (rule bexE)
  from r0(1) have "?f r0 \<in> ?f ` set xs" by (rule imageI)
  then have m: "?f r0 \<in> set (map ?f xs)" by (simp only: set_map)
  from r0(2) have e: "request_id (?f r0) = rid" by simp
  show ?thesis
    by (rule bexI [where x = "?f r0" and P = "\<lambda>r. request_id r = rid"]) (rule e, rule m)
qed

lemma all_after_update:
  "\<forall>r \<in> set (map (\<lambda>r. if request_id r = rid
                          then r\<lparr>master_id := Some mid, status_id := s\<rparr> else r) xs).
      request_id r = rid \<longrightarrow> status_id r = s"
proof (intro ballI impI)
  fix r
  let ?f = "\<lambda>r. if request_id r = rid then r\<lparr>master_id := Some mid, status_id := s\<rparr> else r"
  assume "r \<in> set (map ?f xs)" and ri: "request_id r = rid"
  then have "r \<in> ?f ` set xs" by (simp only: set_map)
  then obtain x where x: "r = ?f x" by (rule imageE)
  show "status_id r = s"
  proof (cases "request_id x = rid")
    case True
    then show ?thesis by (simp add: x)
  next
    case False
    with x ri show ?thesis by simp
  qed
qed

lemma assign_master_success:
  assumes "success (fst (assign_master rid mid uid db))"
  shows "\<exists>st cid. (st, ''V protsesse remonta'') \<in> set (request_statuses db)
     \<and> (\<exists>r \<in> set (repair_requests db). request_id r = rid)
     \<and> repair_requests (snd (assign_master rid mid uid db)) =
          map (\<lambda>r. if request_id r = rid
                    then r\<lparr>master_id := Some mid, status_id := st\<rparr> else r) (repair_requests db)
     \<and> comments (snd (assign_master rid mid uid db)) = comments db @
          [\<lparr>comment_id = cid, c_message = ''Master naznachen na zayavku'', c_master_id = uid,
            c_request_id = rid\<rparr>]"
proof (cases "find (\<lambda>r. request_id r = rid) (repair_requests db)")
  case None
  with assms show ?thesis by (simp add: assign_master_def)
next
  case (Some request)
  note f = this
  show ?thesis
  proof (cases "is_master_or_manager db mid")
    case False
    with assms f show ?thesis by (simp add: assign_master_def)
  next
    case True
    note mm = this
    show ?thesis
    proof (cases "find (\<lambda>s. snd s = ''V protsesse remonta'') (request_statuses db)")
      case None
      with assms f mm show ?thesis by (simp add: assign_master_def)
    next
      case (Some s)
      note st = this
      let ?db1 = "db\<lparr>repair_requests :=
                        map (\<lambda>r. if request_id r = rid
                                  then r\<lparr>master_id := Some mid, status_id := fst s\<rparr> else r)
                          (repair_requests db)\<rparr>"
      show ?thesis
      proof (cases "insert_comment ''Master naznachen na zayavku'' uid rid ?db1")
        case (Inl e)
        with assms f mm st show ?thesis by (simp add: assign_master_def Let_def)
      next
        case (Inr ins)
        then have res: "snd (assign_master rid mid uid db) = snd ins"
          using f mm st by (simp add: assign_master_def Let_def)
        from insert_comment_Inr [OF Inr]
        have c: "comments (snd ins) = comments db @
            [\<lparr>comment_id = fst ins, c_message = ''Master naznachen na zayavku'',
              c_master_id = uid, c_request_id = rid\<rparr>]"
          and r: "repair_requests (snd ins) = map (\<lambda>r. if request_id r = rid
                                  then r\<lparr>master_id := Some mid, status_id := fst s\<rparr> else r)
                          (repair_requests db)"
          by simp_all
        from find_Some_mem [OF st]
        have m: "(fst s, ''V protsesse remonta'') \<in> set (request_statuses db)"
          by (cases s) simp
        from find_Some_mem [OF f]
        have e: "\<exists>r \<in> set (repair_requests db). request_id r = rid"
          by (intro bexI [where x = request]) simp_all
        show ?thesis unfolding res
          by (rule exI [where x = "fst s"], rule exI [where x = "fst ins"])
             (simp only: m e c r simp_thms)
      qed
    qed
  qed
qed

text \<open>
  Claim C6. When \<^verbatim>\<open>Work_DB.assign_master\<close> succeeds, the request exists, every row with
  that key carries the key of the status \<^verbatim>\<open>'V protsesse remonta'\<close> (In Progress), and the
  comments table has grown by one row, which names the request. When the endpoint of
  \<^verbatim>\<open>App.py\<close> succeeds, every row with that request key has the status In Progress, the
  status history has grown by one row, which names the request, and the comments table is
  what it was.
\<close>

theorem assign_master_effect:
  "(success (fst (assign_master rid mid uid db)) \<longrightarrow>
      (\<exists>r \<in> set (repair_requests (snd (assign_master rid mid uid db))). request_id r = rid)
      \<and> (\<forall>r \<in> set (repair_requests (snd (assign_master rid mid uid db))).
            request_id r = rid \<longrightarrow>
              (status_id r, ''V protsesse remonta'') \<in> set (request_statuses db))
      \<and> (\<exists>c. comments (snd (assign_master rid mid uid db)) = comments db @ [c]
               \<and> c_request_id c = rid))
   \<and> (r_success (fst (a_assign_master sess amid arid adb)) \<longrightarrow>
        (\<forall>r \<in> set (service_requests (snd (a_assign_master sess amid arid adb))).
            sr_request_id r = arid \<longrightarrow> request_status r = ''V protsesse remonta'')
        \<and> (\<exists>h. status_history (snd (a_assign_master sess amid arid adb))
                   = status_history adb @ [h]
                 \<and> sh_request_id h = arid \<and> new_status h = ''V protsesse remonta'')
        \<and> a_comments (snd (a_assign_master sess amid arid adb)) = a_comments adb)"
proof (intro conjI impI)
  assume "success (fst (assign_master rid mid uid db))"
  from assign_master_success [OF this] obtain st cid where
    m: "(st, ''V protsesse remonta'') \<in> set (request_statuses db)"
    and e: "\<exists>r \<in> set (repair_requests db). request_id r = rid"
    and r: "repair_requests (snd (assign_master rid mid uid db)) =
          map (\<lambda>r. if request_id r = rid
                    then r\<lparr>master_id := Some mid, status_id := st\<rparr> else r) (repair_requests db)"
    and c: "comments (snd (assign_master rid mid uid db)) = comments db @
          [\<lparr>comment_id = cid, c_message = ''Master naznachen na zayavku'', c_master_id = uid,
            c_request_id = rid\<rparr>]"
    by (elim exE conjE)
  show "\<exists>r \<in> set (repair_requests (snd (assign_master rid mid uid db))). request_id r = rid"
    unfolding r by (rule ex_after_update [OF e])
  show "\<forall>r \<in> set (repair_requests (snd (assign_master rid mid uid db))).
            request_id r = rid \<longrightarrow>
              (status_id r, ''V protsesse remonta'') \<in> set (request_statuses db)"
  proof (intro ballI impI)
    fix q
    assume qm: "q \<in> set (repair_requests (snd (assign_master rid mid uid db)))"
      and qi: "request_id q = rid"
    from qm have "q \<in> set (map (\<lambda>r. if request_id r = rid
                    then r\<lparr>master_id := Some mid, status_id := st\<rparr> else r) (repair_requests db))"
      by (simp only: r)
    from bspec [OF all_after_update this] qi have "status_id q = st" by (rule mp)
    with m show "(status_id q, ''V protsesse remonta'') \<in> set (request_statuses db)" by simp
  qed
  show "\<exists>c. comments (snd (assign_master rid mid uid db)) = comments db @ [c]
               \<and> c_request_id c = rid"
    unfolding c
    by (rule exI [where x = "\<lparr>comment_id = cid, c_message = ''Master naznachen na zayavku'',
          c_master_id = uid, c_request_id = rid\<rparr>"]) simp
next
  assume s: "r_success (fst (a_assign_master sess amid arid adb))"
  from a_assign_master_success [OF s] obtain m where
    m: "find (\<lambda>m. Some (m_id m) = amid) (masters adb) = Some m"
    and ok: "s_user_type sess \<in> {Some ''admin'', Some ''manager'', Some ''operator''}"
      "truthy amid"
    by (elim exE conjE)
  let ?g = "\<lambda>r. if sr_request_id r = arid
             then r\<lparr>sr_master_id := amid, sr_master_fio := Some (master_fio m),
                    sr_master_phone := Some (master_phone m),
                    sr_master_login := Some (master_login m),
                    request_status := ''V protsesse remonta''\<rparr>
             else r"
  have sr: "service_requests (snd (a_assign_master sess amid arid adb))
      = map ?g (service_requests adb)"
    using m ok by (simp add: a_assign_master_def Let_def)
  show "\<forall>r \<in> set (service_requests (snd (a_assign_master sess amid arid adb))).
            sr_request_id r = arid \<longrightarrow> request_status r = ''V protsesse remonta''"
  proof (intro ballI impI)
    fix q
    assume "q \<in> set (service_requests (snd (a_assign_master sess amid arid adb)))"
      and qi: "sr_request_id q = arid"
    then have "q \<in> ?g ` set (service_requests adb)" by (simp only: sr set_map)
    then obtain x where x: "q = ?g x" by (rule imageE)
    show "request_status q = ''V protsesse remonta''"
    proof (cases "sr_request_id x = arid")
      case True
      then show ?thesis by (simp add: x)
    next
      case False
      with x qi show ?thesis by simp
    qed
  qed
  show "\<exists>h. status_history (snd (a_assign_master sess amid arid adb)) = status_history adb @ [h]
                 \<and> sh_request_id h = arid \<and> new_status h = ''V protsesse remonta''"
    using m ok by (simp add: a_assign_master_def Let_def)
  show "a_comments (snd (a_assign_master sess amid arid adb)) = a_comments adb"
    using m ok by (simp add: a_assign_master_def Let_def)
qed

theorem assign_master_effect_witness:
  "success (fst (assign_master 1 2 2 db0))
   \<and> map status_id (repair_requests (snd (assign_master 1 2 2 db0))) = [2]
   \<and> length (comments (snd (assign_master 1 2 2 db0))) = Suc (length (comments db0))
   \<and> r_success (fst (a_assign_master operator_session (Some 1) 7 stale_db))
   \<and> map request_status
         (service_requests (snd (a_assign_master operator_session (Some 1) 7 stale_db)))
       = [''V protsesse remonta'']
   \<and> length (status_history (snd (a_assign_master operator_session (Some 1) 7 stale_db)))
       = Suc (length (status_history stale_db))"
proof -
  have s1: "success (fst (assign_master 1 2 2 db0))" by code_simp
  have s2: "r_success (fst (a_assign_master operator_session (Some 1) 7 stale_db))"
    by code_simp
  have e1: "map status_id (repair_requests (snd (assign_master 1 2 2 db0))) = [2]"
    by code_simp
  have e2: "map request_status
         (service_requests (snd (a_assign_master operator_session (Some 1) 7 stale_db)))
       = [''V protsesse remonta'']"
    by code_simp
  note t = assign_master_effect [of 1 2 2 db0 operator_session "Some 1" 7 stale_db]
  from t s1 have "\<exists>c. comments (snd (assign_master 1 2 2 db0)) = comments db0 @ [c]
               \<and> c_request_id c = 1"
    by (simp only: simp_thms)
  then have l1: "length (comments (snd (assign_master 1 2 2 db0))) = Suc (length (comments db0))"
    by (elim exE conjE) simp
  from t s2 have "\<exists>h. status_history (snd (a_assign_master operator_session (Some 1) 7 stale_db))
                   = status_history stale_db @ [h]
                 \<and> sh_request_id h = 7 \<and> new_status h = ''V protsesse remonta''"
    by (simp only: simp_thms)
  then have l2: "length (status_history (snd (a_assign_master operator_session (Some 1) 7 stale_db)))
       = Suc (length (status_history stale_db))"
    by (elim exE conjE) simp
  from s1 s2 e1 e2 l1 l2 show ?thesis by (simp only: simp_thms)
qed

subsection \<open>The has-comment flag in \<^verbatim>\<open>App.py\<close>\<close>

text \<open>
  Claim C7 at the request number 0. \<^verbatim>\<open>load_comments_from_xlsx\<close> inserts the comment of
  request 0 and reports no error, but the flag of request 0 stays false, because the
  update sits under \<^verbatim>\<open>if request_id:\<close>. With the number 7 the same sheets raise the
  flag, and the endpoint \<^verbatim>\<open>add_comment\<close> raises it for request 0 as well.
\<close>

theorem has_comment_not_set_for_request_zero:
  "map (\<lambda>c. (ac_request_id c, ac_message c)) (a_comments zero_db) = [(0, ''ordered the part'')]
   \<and> map (\<lambda>r. (sr_request_id r, has_comment r)) (service_requests zero_db) = [(0, False)]
   \<and> console zero_db = []
   \<and> map (\<lambda>r. (sr_request_id r, has_comment r)) (service_requests seven_db) = [(7, True)]
   \<and> map (\<lambda>r. (sr_request_id r, has_comment r))
         (service_requests (snd (a_add_comment operator_session
            \<lparr>b_request_id = Some 0, b_message = Some ''again'', b_repair_parts = None\<rparr>
            zero_db)))
       = [(0, True)]"
  by code_simp

subsection \<open>Default accounts\<close>

text \<open>
  Claim C10. When the users file is missing or cannot be read, \<^verbatim>\<open>load_users_from_xlsx\<close>
  returns normally. On the empty \<^verbatim>\<open>users\<close> and \<^verbatim>\<open>masters\<close> tables it is called upon,
  it leaves exactly the seven default accounts (two of type admin, the second being
  \<^verbatim>\<open>manager1\<close>, two masters, one operator, two clients) and the two masters in
  \<^verbatim>\<open>masters\<close>, each pointing to its user; the other tables are untouched, so the loaders
  that follow find the store in order.
\<close>

theorem load_users_defaults:
  assumes "users_file = Missing \<or> users_file = Unreadable"
    and "a_users db = []" and "masters db = []"
  shows "map (\<lambda>u. (au_login u, au_user_type u)) (a_users (load_users_from_xlsx gph users_file db))
       = [(''admin'', ''admin''), (''manager1'', ''admin''), (''master1'', ''master''),
          (''master2'', ''master''), (''operator1'', ''operator''), (''client1'', ''client''),
          (''client2'', ''client'')]
     \<and> map (\<lambda>m. (master_login m, master_type m))
           (masters (load_users_from_xlsx gph users_file db))
       = [(''master1'', ''Master''), (''master2'', ''Master'')]
     \<and> map m_user_id (masters (load_users_from_xlsx gph users_file db))
       = map au_id (filter (\<lambda>u. au_user_type u = ''master'')
                      (a_users (load_users_from_xlsx gph users_file db)))
     \<and> service_requests (load_users_from_xlsx gph users_file db) = service_requests db
     \<and> a_comments (load_users_from_xlsx gph users_file db) = a_comments db
     \<and> status_history (load_users_from_xlsx gph users_file db) = status_history db
     \<and> last (console (load_users_from_xlsx gph users_file db)) = DefaultUsersCreated"
  using assms
  by (elim disjE)
     (simp_all add: load_users_from_xlsx_def create_default_users_def create_default_user_def
        insert_or_ignore_user_def insert_or_ignore_master_def print_line_def Let_def)

theorem load_users_defaults_witness:
  "a_users adb_empty = [] \<and> masters adb_empty = []
   \<and> map (\<lambda>u. (au_id u, au_login u, au_user_type u))
         (a_users (load_users_from_xlsx (\<lambda>p. p) Missing adb_empty))
       = [(1, ''admin'', ''admin''), (2, ''manager1'', ''admin''), (3, ''master1'', ''master''),
          (4, ''master2'', ''master''), (5, ''operator1'', ''operator''),
          (6, ''client1'', ''client''), (7, ''client2'', ''client'')]
   \<and> map (\<lambda>m. (master_login m, master_type m))
         (masters (load_users_from_xlsx (\<lambda>p. p) Unreadable adb_empty))
       = [(''master1'', ''Master''), (''master2'', ''Master'')]
   \<and> map m_user_id (masters (load_users_from_xlsx (\<lambda>p. p) Missing adb_empty)) = [3, 4]"
proof -
  have e: "a_users adb_empty = []" "masters adb_empty = []" by (simp_all add: adb_empty_def)
  have ids: "map (\<lambda>u. (au_id u, au_login u, au_user_type u))
         (a_users (load_users_from_xlsx (\<lambda>p. p) Missing adb_empty))
       = [(1, ''admin'', ''admin''), (2, ''manager1'', ''admin''), (3, ''master1'', ''master''),
          (4, ''master2'', ''master''), (5, ''operator1'', ''operator''),
          (6, ''client1'', ''client''), (7, ''client2'', ''client'')]"
    by code_simp
  have mid: "map m_user_id (masters (load_users_from_xlsx (\<lambda>p. p) Missing adb_empty)) = [3, 4]"
    by code_simp
  from load_users_defaults [of Unreadable adb_empty "\<lambda>p. p"] e
  have "map (\<lambda>m. (master_login m, master_type m))
         (masters (load_users_from_xlsx (\<lambda>p. p) Unreadable adb_empty))
       = [(''master1'', ''Master''), (''master2'', ''Master'')]"
    by (simp only: simp_thms)
  with e ids mid show ?thesis by (simp only: simp_thms)
qed

subsection \<open>A failed copy during schema drift correction\<close>




end
